theory Spec2Isabelle
  imports Main "HOL-Library.Word" "HOL-Library.Monad_Syntax"
begin

unbundle bit_operations_syntax

section \<open>The Lunaix virtual file system (kernel/fs/vfs.c)\<close>

text \<open>
  A shallow embedding of the VFS core. Kernel objects live in explicit stores that map
  an address to a record; the address 0 is the C null pointer. Every function that can
  dereference a pointer, fail an \<open>assert\<close> or call \<open>panick\<close> returns an
  \<open>option\<close>: \<open>None\<close> is the kernel fault, \<open>Some\<close> carries what the C function
  returns together with the updated state.

  The mutexes (\<open>lock_inode\<close>, \<open>lock_dnode\<close> and their unlocks) and the LRU
  promotion they perform (\<open>lru_use_one\<close>) belong to collaborators outside this file
  and have no influence on any value computed here; the model is sequential and leaves
  them out.

  Names are those of the source. A leading \<open>__\<close> is dropped (\<open>__vfs_getfd\<close> is
  \<open>vfs_getfd\<close>), \<open>__vfs_walk\<close> is \<open>vfs_walk_rec\<close> beside its wrapper
  \<open>vfs_walk\<close>, and the fields of a structure carry a prefix that tells the
  structures apart (\<open>d_\<close> for a dnode, \<open>i_\<close> for an inode, \<open>f_\<close> for a file,
  \<open>fd_\<close> for a descriptor, \<open>sb_\<close> for a superblock).
\<close>

subsection \<open>Status codes\<close>

text \<open>
  Modelled from the spec: the error constants are declared in a header that is not part
  of the sources. The spec fixes that a status is an integer, "\<open>\<ge> 0\<close> success value or a
  negative error kind", and lists the kinds. A C \<open>int\<close> status is therefore either one
  of the named (negative, pairwise distinct) error kinds, \<open>Err k\<close>, or any other
  integer, \<open>Val n\<close>.
\<close>

datatype errno =
    ENOMEM | ENOENT | ENOTDIR | EISDIR | ENOTSUP | EINVAL | EBADF | EEXIST
  | EBUSY | EXDEV | ENOTEMPTY | ENAMETOOLONG | EROFS | EMFILE | ELOOP | ERANGE

datatype status = Val int | Err errno

text \<open>The C test \<open>errno < 0\<close>.\<close>

fun status_neg :: "status \<Rightarrow> bool" where
  "status_neg (Err k) = True"
| "status_neg (Val n) = (n < 0)"

text \<open>
  Modelled from the spec: the macros \<open>DO_STATUS\<close> and \<open>DO_STATUS_OR_RETURN\<close> come
  from the system-call glue, which is not part of the sources. Per the spec every
  operation returns its integer status, so \<open>DO_STATUS\<close> hands the status back, and
  \<open>DO_STATUS_OR_RETURN\<close> does so for a negative status and returns any other value as
  it is.
\<close>

definition DO_STATUS :: "status \<Rightarrow> status" where
  "DO_STATUS errno = errno"

definition DO_STATUS_OR_RETURN :: "status \<Rightarrow> status" where
  "DO_STATUS_OR_RETURN errno = (if status_neg errno then DO_STATUS errno else errno)"

subsection \<open>Data model\<close>

type_synonym ptr = nat

abbreviation NULL :: ptr where
  "NULL \<equiv> 0"

text \<open>
  Modelled from the spec: the structures are declared in \<open>lunaix/fs.h\<close> and its
  companions, outside the sources. The records hold the attributes of section 3 of the
  spec that \<open>vfs.c\<close> reads or writes, under the field names \<open>vfs.c\<close> uses. Counts,
  sizes and positions are unsigned 32-bit words; the kernel is a 32-bit one
  (\<open>__dcache_hash\<close> casts a pointer to \<open>uint32_t\<close>).

  \<open>struct hstr\<close>: a string with its length and precomputed hash.
\<close>

record hstr =
  hash :: "32 word"
  len :: nat
  val :: string

text \<open>
  Modelled from the spec: the bitsets (inode type, walk options, file-system type) are
  declared in headers outside the sources; the spec calls them bitsets of independent
  flags. A bitset is the set of its flags, and \<open>bits & FLAG\<close> is membership.
\<close>

datatype itype_flag = VFS_IFDIR | VFS_IFFILE | VFS_IFSEQDEV | VFS_IFVOLDEV | VFS_IFSYMLINK

datatype walk_flag = VFS_WALK_MKPARENT | VFS_WALK_FSRELATIVE | VFS_WALK_PARENT | VFS_WALK_NOFOLLOW

datatype fstype_flag = FSTYPE_ROFS | FSTYPE_FLAG nat

text \<open>
  Modelled from the spec: the constants \<open>FSEEK_SET\<close>, \<open>FSEEK_CUR\<close> and
  \<open>FSEEK_END\<close> of the \<open>options\<close> argument of \<open>lseek\<close> are declared outside the
  sources; "modes are CUR, END, SET". \<open>FSEEK_OTHER\<close> is any other integer.
\<close>

datatype seek_mode = FSEEK_SET | FSEEK_CUR | FSEEK_END | FSEEK_OTHER int

record v_dnode =
  d_name :: hstr
  d_inode :: ptr
  d_parent :: ptr
  d_children :: "ptr list"
  d_super_block :: ptr
  d_mnt :: ptr
  d_ref_count :: "32 word"

record v_inode =
  i_id :: "32 word"
  i_itype :: "itype_flag set"
  i_fsize :: "32 word"
  i_link_count :: "32 word"
  i_open_count :: "32 word"
  i_sb :: ptr
  i_ops :: nat

text \<open>
  \<open>struct v_superblock\<close>; \<open>sb_fs_types\<close> is the field read as
  \<open>super_block->fs->types\<close>.
\<close>

record v_superblock =
  sb_root :: ptr
  sb_fs_types :: "fstype_flag set"

record v_file =
  f_dnode :: ptr
  f_inode :: ptr
  f_pos :: "32 word"
  f_ref_count :: "32 word"
  f_ops :: nat

record v_fd =
  fd_file :: ptr
  fd_flags :: int

text \<open>
  \<open>struct dirent\<close>, the user's buffer of \<open>readdir\<close>, is declared in
  \<open>lunaix/dirent.h\<close>, outside the sources; the record has the four fields that
  \<open>vfs.c\<close> uses (\<open>d_dname\<close> is the field \<open>d_name\<close>). The callback of
  \<open>readdir\<close> writes the name, its length and the type; the offset is the cursor.
\<close>

record dirent =
  d_type :: int
  d_offset :: "32 word"
  d_nlen :: int
  d_dname :: string

text \<open>
  The kernel state: the object stores, the hash table \<open>dnode_cache\<close> (each bucket a
  chain, head first), the free addresses behind \<open>cake_grab(dnode_pile)\<close> and
  \<open>cake_grab(fd_pile)\<close>, the global root, and the current process's descriptor
  table (\<open>fds\<close>) and working directory.
  \<open>drv\<close> is whatever the file-system drivers keep.
\<close>

record 'd vfs_state =
  dnodes :: "ptr \<Rightarrow> v_dnode option"
  inodes :: "ptr \<Rightarrow> v_inode option"
  sblocks :: "ptr \<Rightarrow> v_superblock option"
  files :: "ptr \<Rightarrow> v_file option"
  fdescs :: "ptr \<Rightarrow> v_fd option"
  fds :: "nat \<Rightarrow> ptr"
  cwd :: ptr
  vfs_sysroot :: ptr
  dnode_cache :: "nat \<Rightarrow> ptr list"
  dnode_pile :: "ptr list"
  fd_pile :: "ptr list"
  drv :: 'd

subsection \<open>Constants and collaborators declared outside the sources\<close>

text \<open>
  The constants and helpers of the headers are parameters of the model:
  \<open>VFS_NAME_MAXLEN\<close>, \<open>VFS_HASHBITS\<close>, \<open>VFS_HASH_MASK\<close>, \<open>VFS_MAX_FD\<close>,
  \<open>DIRENT_NAME_MAX_LEN\<close>, the predicate \<open>VFS_VALID_CHAR\<close>, the string hash behind
  \<open>hstr_rehash(s, HSTR_FULL_HASH)\<close> and the comparison \<open>HSTR_EQ\<close>.
\<close>

record vfs_config =
  VFS_NAME_MAXLEN :: nat
  VFS_HASHBITS :: nat
  VFS_HASH_MASK :: "32 word"
  VFS_MAX_FD :: nat
  DIRENT_NAME_MAX_LEN :: nat
  VFS_VALID_CHAR :: "char \<Rightarrow> bool"
  strhash_32 :: "string \<Rightarrow> 32 word"
  HSTR_EQ :: "hstr \<Rightarrow> hstr \<Rightarrow> bool"

text \<open>
  The method tables of the drivers. A field is \<open>None\<close> when the C function pointer is
  null. A driver function receives the kernel state and returns its status with the
  state it leaves. \<open>fop_readdir\<close> returns, besides its status, the calls
  \<open>(name, len, dtype)\<close> it made to \<open>read_complete_callback\<close>.
\<close>

record 'd inode_ops =
  op_dir_lookup :: "(ptr \<Rightarrow> ptr \<Rightarrow> 'd vfs_state \<Rightarrow> status \<times> 'd vfs_state) option"
  op_mkdir :: "(ptr \<Rightarrow> ptr \<Rightarrow> 'd vfs_state \<Rightarrow> status \<times> 'd vfs_state) option"
  op_rmdir :: "(ptr \<Rightarrow> ptr \<Rightarrow> 'd vfs_state \<Rightarrow> status \<times> 'd vfs_state) option"
  op_create :: "(ptr \<Rightarrow> ptr \<Rightarrow> 'd vfs_state \<Rightarrow> status \<times> 'd vfs_state) option"
  op_unlink :: "(ptr \<Rightarrow> 'd vfs_state \<Rightarrow> status \<times> 'd vfs_state) option"
  op_rename :: "(ptr \<Rightarrow> ptr \<Rightarrow> ptr \<Rightarrow> 'd vfs_state \<Rightarrow> status \<times> 'd vfs_state) option"
  op_read_symlink :: "(ptr \<Rightarrow> 'd vfs_state \<Rightarrow> (status \<times> string) \<times> 'd vfs_state) option"
  op_set_symlink :: "(ptr \<Rightarrow> string \<Rightarrow> 'd vfs_state \<Rightarrow> status \<times> 'd vfs_state) option"

record 'd file_ops =
  fop_seek :: "(ptr \<Rightarrow> 32 word \<Rightarrow> 'd vfs_state \<Rightarrow> status \<times> 'd vfs_state) option"
  fop_readdir ::
    "(ptr \<Rightarrow> 32 word \<Rightarrow> 'd vfs_state \<Rightarrow> (status \<times> (string \<times> int \<times> int) list) \<times> 'd vfs_state) option"
  fop_close :: "(ptr \<Rightarrow> 'd vfs_state \<Rightarrow> status \<times> 'd vfs_state) option"

text \<open>
  The environment: the configuration, the method table behind each \<open>ops\<close> pointer,
  \<open>lru_evict_half(dnode_lru)\<close> of the LRU library, \<open>mnt_chillax\<close> of the mount
  bookkeeping and \<open>pcache_commit_all\<close> of the page cache.
\<close>

record 'd vfs_env = vfs_config +
  iops :: "nat \<Rightarrow> 'd inode_ops"
  fops :: "nat \<Rightarrow> 'd file_ops"
  lru_evict_half_dnode :: "'d vfs_state \<Rightarrow> 'd vfs_state"
  mnt_chillax :: "ptr \<Rightarrow> 'd vfs_state \<Rightarrow> 'd vfs_state"
  pcache_commit_all :: "ptr \<Rightarrow> 'd vfs_state \<Rightarrow> 'd vfs_state"

subsection \<open>Hashed strings\<close>

definition PATH_DELIM :: char where
  "PATH_DELIM = CHR ''/''"

definition NUL :: char where
  "NUL = CHR 0x00"

text \<open>\<open>hstr_rehash(s, HSTR_FULL_HASH)\<close>: recompute the hash from the bytes.\<close>

definition hstr_rehash :: "('a vfs_config_scheme) \<Rightarrow> hstr \<Rightarrow> hstr" where
  "hstr_rehash C s = s\<lparr>hash := strhash_32 C (val s)\<rparr>"

text \<open>
  The globals \<open>vfs_ddot\<close>, \<open>vfs_dot\<close> and \<open>vfs_empty\<close>, as \<open>vfs_init\<close> leaves
  them: the first two rehashed, the last with the hash 0 of its static initialiser.
\<close>

definition vfs_ddot :: "('a vfs_config_scheme) \<Rightarrow> hstr" where
  "vfs_ddot C = hstr_rehash C \<lparr>hash = 0, len = 2, val = ''..''\<rparr>"

definition vfs_dot :: "('a vfs_config_scheme) \<Rightarrow> hstr" where
  "vfs_dot C = hstr_rehash C \<lparr>hash = 0, len = 1, val = ''.''\<rparr>"

definition vfs_empty :: hstr where
  "vfs_empty = \<lparr>hash = 0, len = 0, val = ''''\<rparr>"

subsection \<open>The dnode cache\<close>

text \<open>
  \<open>__dcache_hash\<close>: mixes the parent's address into the hash, folds the high bits
  into the low ones, stores the mixed hash back through the pointer and selects the
  bucket. The pair is the mixed hash and the bucket index.
\<close>

definition dcache_hash :: "('a vfs_config_scheme) \<Rightarrow> ptr \<Rightarrow> 32 word \<Rightarrow> 32 word \<times> nat" where
  "dcache_hash C parent h =
     (let h1 = h + (word_of_nat parent :: 32 word);
          h2 = h1 XOR (drop_bit (VFS_HASHBITS C) h1)
      in (h2, unat (h2 AND VFS_HASH_MASK C)))"

text \<open>
  \<open>hashtable_bucket_foreach\<close> with the test of \<open>vfs_dcache_lookup\<close>: the first
  dnode of the chain whose stored hash is the wanted one, \<open>NULL\<close> when there is none.
\<close>

fun bucket_find :: "(ptr \<Rightarrow> v_dnode option) \<Rightarrow> 32 word \<Rightarrow> ptr list \<Rightarrow> ptr option" where
  "bucket_find ds h [] = Some NULL"
| "bucket_find ds h (pos # rest) =
     (case ds pos of
        None \<Rightarrow> None
      | Some d \<Rightarrow> if hash (d_name d) = h then Some pos else bucket_find ds h rest)"

definition vfs_dcache_lookup ::
  "('a vfs_config_scheme) \<Rightarrow> ptr \<Rightarrow> hstr \<Rightarrow> 'd vfs_state \<Rightarrow> ptr option" where
  "vfs_dcache_lookup C parent str st =
     (if len str = 0 \<or> HSTR_EQ C str (vfs_dot C) then Some parent
      else if HSTR_EQ C str (vfs_ddot C) then
        (case dnodes st parent of
           None \<Rightarrow> None
         | Some p \<Rightarrow> Some (if d_parent p \<noteq> NULL then d_parent p else parent))
      else
        (let (h, slot) = dcache_hash C parent (hash str)
         in bucket_find (dnodes st) h (dnode_cache st slot)))"

text \<open>
  \<open>vfs_dcache_add\<close>. The child list of a dnode is kept in the parent
  (\<open>d_children\<close>, in list order); \<open>llist_append\<close> adds at the end, \<open>hlist_add\<close> at
  the head of the chain. The mixed hash replaces the hash stored in the dnode's name.
\<close>

definition vfs_dcache_add ::
  "('a vfs_config_scheme) \<Rightarrow> ptr \<Rightarrow> ptr \<Rightarrow> 'd vfs_state \<Rightarrow> 'd vfs_state option" where
  "vfs_dcache_add C parent dnode st =
     (if parent = NULL then None
      else case dnodes st dnode of
        None \<Rightarrow> None
      | Some d \<Rightarrow>
         (let d1 = d\<lparr>d_ref_count := d_ref_count d + 1, d_parent := parent\<rparr>;
              ds1 = (dnodes st)(dnode \<mapsto> d1)
          in case ds1 parent of
               None \<Rightarrow> None
             | Some p \<Rightarrow>
                (let ds2 = ds1(parent \<mapsto> p\<lparr>d_children := d_children p @ [dnode]\<rparr>)
                 in case ds2 dnode of
                      None \<Rightarrow> None
                    | Some d2 \<Rightarrow>
                       (let (h, slot) = dcache_hash C parent (hash (d_name d2));
                            ds3 = ds2(dnode \<mapsto> d2\<lparr>d_name := (d_name d2)\<lparr>hash := h\<rparr>\<rparr>)
                        in Some (st\<lparr>dnodes := ds3,
                                    dnode_cache := (dnode_cache st)(slot := dnode # dnode_cache st slot)\<rparr>)))))"

subsection \<open>File descriptors\<close>

text \<open>
  Modelled from the spec: the macro \<open>TEST_FD\<close> is declared outside the sources; the
  spec says that \<open>__vfs_getfd\<close> "validates the fd range", the table having
  \<open>VFS_MAX_FD\<close> slots.
\<close>

definition TEST_FD :: "('a vfs_config_scheme) \<Rightarrow> int \<Rightarrow> bool" where
  "TEST_FD C fd = (0 \<le> fd \<and> fd < int (VFS_MAX_FD C))"

text \<open>
  \<open>__vfs_getfd\<close>: the status and the slot stored through \<open>fd_s\<close>. When the range
  test fails nothing is stored; no caller reads \<open>fd_s\<close> then, and the model gives
  \<open>NULL\<close>.
\<close>

definition vfs_getfd :: "('a vfs_config_scheme) \<Rightarrow> int \<Rightarrow> 'd vfs_state \<Rightarrow> status \<times> ptr" where
  "vfs_getfd C fd st =
     (if TEST_FD C fd \<and> fds st (nat fd) \<noteq> NULL then (Val 0, fds st (nat fd))
      else (Err EBADF, if TEST_FD C fd then fds st (nat fd) else NULL))"

text \<open>
  \<open>vfs_close\<close>. A released file leaves the store (\<open>cake_release\<close>).
\<close>

definition vfs_close :: "'d vfs_env \<Rightarrow> ptr \<Rightarrow> 'd vfs_state \<Rightarrow> (status \<times> 'd vfs_state) option" where
  "vfs_close E file st = do {
     f \<leftarrow> files st file;
     close \<leftarrow> fop_close (fops E (f_ops f));
     (errno, st1) \<leftarrow> Some (close file st);
     if errno \<noteq> Val 0 then Some (errno, st1)
     else do {
       f1 \<leftarrow> files st1 file;
       d \<leftarrow> dnodes st1 (f_dnode f1);
       st2 \<leftarrow> Some (st1\<lparr>dnodes := (dnodes st1)(f_dnode f1 \<mapsto> d\<lparr>d_ref_count := d_ref_count d - 1\<rparr>)\<rparr>);
       i \<leftarrow> inodes st2 (f_inode f1);
       st3 \<leftarrow> Some (st2\<lparr>inodes := (inodes st2)(f_inode f1 \<mapsto> i\<lparr>i_open_count := i_open_count i - 1\<rparr>)\<rparr>);
       d3 \<leftarrow> dnodes st3 (f_dnode f1);
       st4 \<leftarrow> Some (mnt_chillax E (d_mnt d3) st3);
       st5 \<leftarrow> Some (pcache_commit_all E (f_inode f1) st4);
       Some (errno, st5\<lparr>files := (files st5)(file := None)\<rparr>)
     }
   }"

text \<open>
  \<open>vfs_dup_fd\<close>: the copy is taken from \<open>fd_pile\<close> without a null check, so an
  empty pile is a fault. The result is the status and the pointer stored through
  \<open>new\<close>.
\<close>

definition vfs_dup_fd :: "ptr \<Rightarrow> 'd vfs_state \<Rightarrow> ((status \<times> ptr) \<times> 'd vfs_state) option" where
  "vfs_dup_fd old st =
     (case fd_pile st of
        [] \<Rightarrow> None
      | copied # pile \<Rightarrow> do {
          old_s \<leftarrow> fdescs st old;
          st1 \<leftarrow> Some (st\<lparr>fd_pile := pile, fdescs := (fdescs st)(copied \<mapsto> old_s)\<rparr>);
          old1 \<leftarrow> fdescs st1 old;
          f \<leftarrow> files st1 (fd_file old1);
          Some ((Val 0, copied),
                st1\<lparr>files := (files st1)(fd_file old1 \<mapsto> f\<lparr>f_ref_count := f_ref_count f + 1\<rparr>)\<rparr>)
        })"

definition vfs_dup2 :: "'d vfs_env \<Rightarrow> int \<Rightarrow> int \<Rightarrow> 'd vfs_state \<Rightarrow> (status \<times> 'd vfs_state) option" where
  "vfs_dup2 E oldfd newfd st =
     (if newfd = oldfd then Some (Val newfd, st)
      else
       (let (errno, oldfd_s) = vfs_getfd E oldfd st
        in if errno \<noteq> Val 0 then Some (DO_STATUS errno, st)
           else if \<not> TEST_FD E newfd then Some (DO_STATUS (Err EBADF), st)
           else
            (let newfd_s = fds st (nat newfd)
             in case (if newfd_s \<noteq> NULL
                      then (case fdescs st newfd_s of
                              None \<Rightarrow> None
                            | Some n \<Rightarrow> vfs_close E (fd_file n) st)
                      else Some (Val 0, st)) of
                  None \<Rightarrow> None
                | Some (errno1, st1) \<Rightarrow>
                   if newfd_s \<noteq> NULL \<and> errno1 \<noteq> Val 0 then Some (DO_STATUS errno1, st1)
                   else
                    (case vfs_dup_fd oldfd_s st1 of
                       None \<Rightarrow> None
                     | Some ((errno2, new_s), st2) \<Rightarrow>
                        if errno2 = Val 0
                        then Some (Val newfd, st2\<lparr>fds := (fds st2)(nat newfd := new_s)\<rparr>)
                        else Some (DO_STATUS errno2, st2)))))"

definition sys_dup2 :: "'d vfs_env \<Rightarrow> int \<Rightarrow> int \<Rightarrow> 'd vfs_state \<Rightarrow> (status \<times> 'd vfs_state) option" where
  "sys_dup2 E oldfd newfd st = vfs_dup2 E oldfd newfd st"

subsection \<open>lseek\<close>

text \<open>
  \<open>sys_lseek\<close>. \<open>f_pos\<close> and \<open>fsize\<close> are \<open>size_t\<close> and the offset an \<open>int\<close>,
  both 32 bits wide: the casts of the source keep the bits, and the sum is the sum of
  32-bit words.
\<close>

definition sys_lseek ::
  "'d vfs_env \<Rightarrow> int \<Rightarrow> 32 word \<Rightarrow> seek_mode \<Rightarrow> 'd vfs_state \<Rightarrow> (status \<times> 'd vfs_state) option" where
  "sys_lseek E fd offset options st =
     (let (errno, fd_s) = vfs_getfd E fd st
      in if errno \<noteq> Val 0 then Some (DO_STATUS errno, st)
         else
          (case fdescs st fd_s of
             None \<Rightarrow> None
           | Some fdr \<Rightarrow>
              (case files st (fd_file fdr) of
                 None \<Rightarrow> None
               | Some file \<Rightarrow>
                  (case (case options of
                           FSEEK_CUR \<Rightarrow> Some (f_pos file + offset)
                         | FSEEK_END \<Rightarrow>
                            (case inodes st (f_inode file) of
                               None \<Rightarrow> None
                             | Some i \<Rightarrow> Some (i_fsize i + offset))
                         | FSEEK_SET \<Rightarrow> Some offset
                         | FSEEK_OTHER n \<Rightarrow> Some (f_pos file)) of
                     None \<Rightarrow> None
                   | Some fpos \<Rightarrow>
                      (case fop_seek (fops E (f_ops file)) of
                         None \<Rightarrow> None
                       | Some seek \<Rightarrow>
                          (let (errno1, st1) = seek (f_inode file) fpos st
                           in if errno1 = Val 0
                              then (case files st1 (fd_file fdr) of
                                      None \<Rightarrow> None
                                    | Some file1 \<Rightarrow>
                                       Some (DO_STATUS errno1,
                                             st1\<lparr>files := (files st1)(fd_file fdr \<mapsto>
                                                    file1\<lparr>f_pos := fpos\<rparr>)\<rparr>))
                              else Some (DO_STATUS errno1, st1)))))))"

subsection \<open>readdir\<close>

text \<open>
  \<open>__vfs_readdir_callback\<close>: \<open>strncpy\<close> copies at most \<open>DIRENT_NAME_MAX_LEN\<close> bytes
  of the name. The offset of the dirent is not touched.
\<close>

definition vfs_readdir_callback ::
  "('a vfs_config_scheme) \<Rightarrow> dirent \<Rightarrow> string \<times> int \<times> int \<Rightarrow> dirent" where
  "vfs_readdir_callback C dent call =
     (case call of (name, nlen, dtype) \<Rightarrow>
        dent\<lparr>d_dname := take (DIRENT_NAME_MAX_LEN C) name, d_nlen := nlen, d_type := dtype\<rparr>)"

text \<open>
  \<open>sys_readdir\<close>. The user's dirent is passed in and handed back. The driver gets the
  file and the index of its \<open>dir_context\<close>; the callback calls it reports are applied
  to the dirent in order.
\<close>

definition sys_readdir ::
  "'d vfs_env \<Rightarrow> int \<Rightarrow> dirent \<Rightarrow> 'd vfs_state \<Rightarrow> (status \<times> dirent \<times> 'd vfs_state) option" where
  "sys_readdir E fd dent st =
     (let (errno, fd_s) = vfs_getfd E fd st
      in if errno \<noteq> Val 0 then Some (DO_STATUS_OR_RETURN errno, dent, st)
         else
          (case fdescs st fd_s of
             None \<Rightarrow> None
           | Some fdr \<Rightarrow>
              (case files st (fd_file fdr) of
                 None \<Rightarrow> None
               | Some file \<Rightarrow>
                  (case inodes st (f_inode file) of
                     None \<Rightarrow> None
                   | Some inode \<Rightarrow>
                      if VFS_IFDIR \<notin> i_itype inode
                      then Some (DO_STATUS_OR_RETURN (Err ENOTDIR), dent, st)
                      else if d_offset dent = 0
                      then (let dent1 = vfs_readdir_callback E dent (val (vfs_dot E), int (len (vfs_dot E)), 0)
                            in Some (DO_STATUS_OR_RETURN (Val 1), dent1\<lparr>d_offset := d_offset dent1 + 1\<rparr>, st))
                      else if d_offset dent = 1
                      then (let dent1 = vfs_readdir_callback E dent (val (vfs_ddot E), int (len (vfs_ddot E)), 0)
                            in Some (DO_STATUS_OR_RETURN (Val 1), dent1\<lparr>d_offset := d_offset dent1 + 1\<rparr>, st))
                      else
                       (case fop_readdir (fops E (f_ops file)) of
                          None \<Rightarrow> None
                        | Some readdir \<Rightarrow>
                           (let ((errno1, calls), st1) = readdir (fd_file fdr) (d_offset dent - 2) st;
                                dent1 = foldl (vfs_readdir_callback E) dent calls
                            in if errno1 \<noteq> Val 1 then Some (DO_STATUS_OR_RETURN errno1, dent1, st1)
                               else Some (DO_STATUS_OR_RETURN errno1,
                                          dent1\<lparr>d_offset := d_offset dent1 + 1\<rparr>, st1)))))))"

subsection \<open>Removal from the cache, allocation, release\<close>

text \<open>
  \<open>llist_delete(&dnode->siblings)\<close>: the dnode leaves the child list it is linked
  into, which is the list of its parent. \<open>hlist_delete(&dnode->hash_list)\<close>: the dnode
  leaves the chain it is linked into, whichever bucket that is.
\<close>

definition llist_delete_sibling :: "ptr \<Rightarrow> (ptr \<Rightarrow> v_dnode option) \<Rightarrow> (ptr \<Rightarrow> v_dnode option)" where
  "llist_delete_sibling dnode ds =
     (case ds dnode of
        None \<Rightarrow> ds
      | Some d \<Rightarrow>
         (case ds (d_parent d) of
            None \<Rightarrow> ds
          | Some p \<Rightarrow> ds(d_parent d \<mapsto> p\<lparr>d_children := removeAll dnode (d_children p)\<rparr>)))"

definition hlist_delete :: "ptr \<Rightarrow> (nat \<Rightarrow> ptr list) \<Rightarrow> (nat \<Rightarrow> ptr list)" where
  "hlist_delete dnode cache = (\<lambda>slot. removeAll dnode (cache slot))"

definition vfs_dcache_remove :: "ptr \<Rightarrow> 'd vfs_state \<Rightarrow> 'd vfs_state option" where
  "vfs_dcache_remove dnode st =
     (if dnode = NULL then None
      else do {
        d \<leftarrow> dnodes st dnode;
        if d_ref_count d \<noteq> 1 then None
        else do {
          ds1 \<leftarrow> Some (llist_delete_sibling dnode (dnodes st));
          d1 \<leftarrow> ds1 dnode;
          Some (st\<lparr>dnodes := ds1(dnode \<mapsto> d1\<lparr>d_parent := NULL, d_ref_count := d_ref_count d1 - 1\<rparr>),
                  dnode_cache := hlist_delete dnode (dnode_cache st)\<rparr>)
        }
      })"

definition vfs_dcache_rehash ::
  "('a vfs_config_scheme) \<Rightarrow> ptr \<Rightarrow> ptr \<Rightarrow> 'd vfs_state \<Rightarrow> 'd vfs_state option" where
  "vfs_dcache_rehash C new_parent dnode st =
     (if new_parent = NULL then None
      else do {
        d \<leftarrow> dnodes st dnode;
        st1 \<leftarrow> Some (st\<lparr>dnodes := (dnodes st)(dnode \<mapsto> d\<lparr>d_name := hstr_rehash C (d_name d)\<rparr>)\<rparr>);
        st2 \<leftarrow> vfs_dcache_remove dnode st1;
        vfs_dcache_add C new_parent dnode st2
      })"

text \<open>
  \<open>cake_grab(dnode_pile)\<close>: the next free address of the slab, \<open>NULL\<close> when the slab
  is exhausted.
\<close>

definition cake_grab_dnode :: "'d vfs_state \<Rightarrow> ptr \<times> 'd vfs_state" where
  "cake_grab_dnode st =
     (case dnode_pile st of
        [] \<Rightarrow> (NULL, st)
      | a # pile \<Rightarrow> (a, st\<lparr>dnode_pile := pile\<rparr>))"

text \<open>
  Modelled from the spec: \<open>hstrcpy\<close> is defined outside the sources; a dnode's name is
  "a hashed name (string + precomputed hash)", and the copy carries the string, its
  length and its hash.
\<close>

definition hstrcpy :: "hstr \<Rightarrow> hstr \<Rightarrow> hstr" where
  "hstrcpy dest src = dest\<lparr>hash := hash src, len := len src, val := val src\<rparr>"

text \<open>\<open>vfs_d_alloc\<close>: the new dnode (or \<open>NULL\<close>) and the state.\<close>

definition vfs_d_alloc ::
  "'d vfs_env \<Rightarrow> ptr \<Rightarrow> hstr \<Rightarrow> 'd vfs_state \<Rightarrow> (ptr \<times> 'd vfs_state) option" where
  "vfs_d_alloc E parent name st = do {
     (dnode, st1) \<leftarrow> Some (cake_grab_dnode st);
     (dnode1, st2) \<leftarrow> Some (if dnode = NULL then cake_grab_dnode (lru_evict_half_dnode E st1)
                            else (dnode, st1));
     if dnode1 = NULL then Some (NULL, st2)
     else do {
       sb \<leftarrow> (if parent \<noteq> NULL then map_option d_super_block (dnodes st2 parent) else Some NULL);
       Some (dnode1,
             st2\<lparr>dnodes := (dnodes st2)(dnode1 \<mapsto>
                    \<lparr>d_name = hstrcpy \<lparr>hash = 0, len = 0, val = []\<rparr> name,
                     d_inode = NULL, d_parent = NULL, d_children = [],
                     d_super_block = sb, d_mnt = NULL, d_ref_count = 0\<rparr>)\<rparr>)
     }
   }"

text \<open>The loop of \<open>vfs_d_free\<close> over the children of the dnode.\<close>

fun dcache_remove_each :: "ptr list \<Rightarrow> 'd vfs_state \<Rightarrow> 'd vfs_state option" where
  "dcache_remove_each [] st = Some st"
| "dcache_remove_each (pos # rest) st =
     (case vfs_dcache_remove pos st of
        None \<Rightarrow> None
      | Some st1 \<Rightarrow> dcache_remove_each rest st1)"

text \<open>
  \<open>vfs_d_free\<close>. The released dnode leaves the store and its address goes back to the
  slab.
\<close>

definition vfs_d_free :: "ptr \<Rightarrow> 'd vfs_state \<Rightarrow> 'd vfs_state option" where
  "vfs_d_free dnode st = do {
     d \<leftarrow> dnodes st dnode;
     if d_ref_count d \<noteq> 1 then None
     else do {
       st1 \<leftarrow> (if d_inode d \<noteq> NULL
               then do {
                 i \<leftarrow> inodes st (d_inode d);
                 if \<not> 0 < i_link_count i then None
                 else Some (st\<lparr>inodes := (inodes st)(d_inode d \<mapsto> i\<lparr>i_link_count := i_link_count i - 1\<rparr>)\<rparr>)
               }
               else Some st);
       st2 \<leftarrow> vfs_dcache_remove dnode st1;
       d2 \<leftarrow> dnodes st2 dnode;
       st3 \<leftarrow> dcache_remove_each (d_children d2) st2;
       Some (st3\<lparr>dnodes := (dnodes st3)(dnode := None), dnode_pile := dnode # dnode_pile st3\<rparr>)
     }
   }"

subsection \<open>The path walker\<close>

definition VFS_SYMLINK_DEPTH :: nat where
  "VFS_SYMLINK_DEPTH = 16"

text \<open>
  Lines 298 to 331 of \<open>__vfs_walk\<close>: the component is looked up in the cache under
  \<open>current_level\<close>; on a miss a dnode is allocated and the driver's \<open>dir_lookup\<close>
  (or, for \<open>ENOENT\<close> under \<open>VFS_WALK_MKPARENT\<close>, its \<open>mkdir\<close>) fills it. The
  result is \<open>errno\<close>, the local \<open>dnode\<close> and the state; with a non-zero \<open>errno\<close>
  the walk leaves through \<open>error\<close>, after \<open>cleanup\<close> where the source goes there.
\<close>

definition walk_lookup ::
  "'d vfs_env \<Rightarrow> walk_flag set \<Rightarrow> ptr \<Rightarrow> ptr \<Rightarrow> hstr \<Rightarrow> 'd vfs_state
     \<Rightarrow> (status \<times> ptr \<times> 'd vfs_state) option" where
  "walk_lookup E walk_options current_level current_inode name st = do {
     dnode \<leftarrow> vfs_dcache_lookup E current_level name st;
     if dnode \<noteq> NULL then Some (Val 0, dnode, st)
     else do {
       (dnode1, st1) \<leftarrow> vfs_d_alloc E current_level name st;
       if dnode1 = NULL then Some (Err ENOMEM, dnode1, st1)
       else do {
         ci \<leftarrow> inodes st1 current_inode;
         dir_lookup \<leftarrow> op_dir_lookup (iops E (i_ops ci));
         (errno, st2) \<leftarrow> Some (dir_lookup current_inode dnode1 st1);
         (errno1, st3) \<leftarrow>
           (if errno = Err ENOENT \<and> VFS_WALK_MKPARENT \<in> walk_options
            then do {
              ci2 \<leftarrow> inodes st2 current_inode;
              (case op_mkdir (iops E (i_ops ci2)) of
                 None \<Rightarrow> Some (Err ENOTSUP, st2)
               | Some mkdir \<Rightarrow> Some (mkdir current_inode dnode1 st2))
            }
            else Some (errno, st2));
         st4 \<leftarrow> vfs_dcache_add E current_level dnode1 st3;
         if errno1 \<noteq> Val 0
         then do { st5 \<leftarrow> vfs_d_free dnode1 st4; Some (errno1, dnode1, st5) }
         else Some (errno1, dnode1, st4)
       }
     }
   }"

text \<open>
  The prologue of \<open>__vfs_walk\<close> after the depth test: the dnode the walk starts from
  and the index \<open>i\<close> of the first character read.
\<close>

definition walk_start ::
  "walk_flag set \<Rightarrow> ptr \<Rightarrow> string \<Rightarrow> 'd vfs_state \<Rightarrow> (ptr \<times> nat) option" where
  "walk_start walk_options start path st =
     (if (path \<noteq> [] \<and> hd path = PATH_DELIM) \<or> start = NULL
      then (if VFS_WALK_FSRELATIVE \<in> walk_options \<and> start \<noteq> NULL
            then do {
              s \<leftarrow> dnodes st start;
              sb \<leftarrow> sblocks st (d_super_block s);
              Some (sb_root sb, Suc 0)
            }
            else do {
              r \<leftarrow> dnodes st (vfs_sysroot st);
              if d_mnt r = NULL then None else Some (vfs_sysroot st, Suc 0)
            })
      else Some (start, 0))"

text \<open>
  The symlink step of \<open>__vfs_walk\<close> (lines 269 to 296, \<open>walk_symlink\<close> below)
  needs the walk itself, so it is part of the recursion. Its outcome is either the exit
  through \<open>error\<close> with an \<open>errno\<close>, on the left, or the new \<open>current_level\<close>
  with its inode, on the right.
\<close>

type_synonym 'd symlink_step = "(status \<times> 'd vfs_state) + (ptr \<times> ptr \<times> 'd vfs_state)"

text \<open>
  \<open>__vfs_walk\<close> (\<open>vfs_walk_rec\<close>), its loop (\<open>walk_loop\<close>: the scan of one
  character, lines 234 to 252) and the handling of a completed component
  (\<open>walk_component\<close>, lines 254 to 334). The path is the C string without its
  terminator; the loop runs over the characters from \<open>current\<close> on, the empty list
  standing for \<open>current\<close> being the terminator, and \<open>lookahead\<close> being the
  terminator when no character follows. \<open>fname\<close> is \<open>fname_buffer[0..j-1]\<close>; every level of the
  recursion has its own slice of the buffer. \<open>dentry\<close> and \<open>component\<close> are the
  contents of the two out-parameters (\<open>component = None\<close>: the null pointer): they
  come in as they are before the call and are returned as they are after it. The local
  \<open>dnode\<close> is not initialised in the source and is not read before it is written;
  it starts as \<open>NULL\<close>. Reading \<open>path[1]\<close> of an empty path is a fault.
\<close>

function vfs_walk_rec ::
    "'d vfs_env \<Rightarrow> ptr \<Rightarrow> string \<Rightarrow> ptr \<Rightarrow> hstr option \<Rightarrow> walk_flag set \<Rightarrow> nat \<Rightarrow> 'd vfs_state
       \<Rightarrow> (status \<times> ptr \<times> hstr option \<times> 'd vfs_state) option"
  and walk_loop ::
    "'d vfs_env \<Rightarrow> walk_flag set \<Rightarrow> nat \<Rightarrow> string \<Rightarrow> string \<Rightarrow> ptr \<Rightarrow> ptr \<Rightarrow> ptr \<Rightarrow> hstr option
       \<Rightarrow> 'd vfs_state \<Rightarrow> (status \<times> ptr \<times> hstr option \<times> 'd vfs_state) option"
  and walk_component ::
    "'d vfs_env \<Rightarrow> walk_flag set \<Rightarrow> nat \<Rightarrow> string \<Rightarrow> char \<Rightarrow> string \<Rightarrow> ptr \<Rightarrow> ptr \<Rightarrow> ptr
       \<Rightarrow> hstr option \<Rightarrow> 'd vfs_state \<Rightarrow> (status \<times> ptr \<times> hstr option \<times> 'd vfs_state) option"
  and walk_symlink ::
    "'d vfs_env \<Rightarrow> nat \<Rightarrow> ptr \<Rightarrow> ptr \<Rightarrow> 'd vfs_state \<Rightarrow> 'd symlink_step option"
where
  "vfs_walk_rec E start path dentry component walk_options depth st =
     (if depth \<ge> VFS_SYMLINK_DEPTH then Some (Err ENAMETOOLONG, dentry, component, st)
      else
       (case walk_start walk_options start path st of
          None \<Rightarrow> None
        | Some (start1, i) \<Rightarrow>
           if length path < i then None
           else walk_loop E walk_options depth (drop i path) [] start1 NULL dentry component st))"
| "walk_loop E walk_options depth cs fname current_level dnode dentry component st =
     (case cs of
        [] \<Rightarrow> Some (Val 0, current_level, component, st)
      | current # rest \<Rightarrow>
         if current = NUL \<or> current_level = NULL then Some (Val 0, current_level, component, st)
         else
          (let lookahead = (case rest of [] \<Rightarrow> NUL | c # cs1 \<Rightarrow> c)
           in if current \<noteq> PATH_DELIM \<and> int (length fname) \<ge> int (VFS_NAME_MAXLEN E) - 1
              then Some (Err ENAMETOOLONG, dentry, component, st)
              else if current \<noteq> PATH_DELIM \<and> \<not> VFS_VALID_CHAR E current
              then Some (Err EINVAL, dentry, component, st)
              else
               (let fname1 = (if current \<noteq> PATH_DELIM then fname @ [current] else fname)
                in if (current \<noteq> PATH_DELIM \<and> lookahead \<noteq> NUL) \<or> lookahead = PATH_DELIM
                   then walk_loop E walk_options depth rest fname1 current_level dnode dentry component st
                   else walk_component E walk_options depth fname1 lookahead rest current_level dnode
                          dentry component st)))"
| "walk_component E walk_options depth fname lookahead rest current_level dnode dentry component st =
     (let name = hstr_rehash E \<lparr>hash = 0, len = length fname, val = fname\<rparr>
      in if lookahead = NUL \<and> VFS_WALK_PARENT \<in> walk_options
         then Some (Val 0, current_level, (case component of None \<Rightarrow> None | Some c \<Rightarrow> Some name), st)
         else
          (case walk_symlink E depth current_level dnode st of
             None \<Rightarrow> None
           | Some (Inl (errno, st1)) \<Rightarrow> Some (errno, NULL, component, st1)
           | Some (Inr (current_level1, current_inode, st1)) \<Rightarrow>
              (case walk_lookup E walk_options current_level1 current_inode name st1 of
                 None \<Rightarrow> None
               | Some (errno, dnode1, st2) \<Rightarrow>
                  if errno \<noteq> Val 0 then Some (errno, NULL, component, st2)
                  else walk_loop E walk_options depth rest [] dnode1 dnode1 dentry component st2)))"
| "walk_symlink E depth current_level dnode st =
     (case dnodes st current_level of
        None \<Rightarrow> None
      | Some cl \<Rightarrow>
         (case inodes st (d_inode cl) of
            None \<Rightarrow> None
          | Some ci \<Rightarrow>
             if VFS_IFSYMLINK \<in> i_itype ci
             then (case op_read_symlink (iops E (i_ops ci)) of
                     None \<Rightarrow> None
                   | Some read_symlink \<Rightarrow>
                      (case read_symlink (d_inode cl) st of
                         ((errno, link), st1) \<Rightarrow>
                          if errno \<noteq> Val 0 then Some (Inl (errno, st1))
                          else
                           (case dnodes st1 current_level of
                              None \<Rightarrow> None
                            | Some cl1 \<Rightarrow>
                               (case vfs_walk_rec E (d_parent cl1) link dnode None {} (depth + 1) st1 of
                                  None \<Rightarrow> None
                                | Some (errno2, dnode2, c2, st2) \<Rightarrow>
                                   if errno2 \<noteq> Val 0 then Some (Inl (errno2, st2))
                                   else
                                    (case dnodes st2 current_level of
                                       None \<Rightarrow> None
                                     | Some cl2 \<Rightarrow>
                                        (case vfs_dcache_rehash E (d_parent cl2) dnode2 st2 of
                                           None \<Rightarrow> None
                                         | Some st3 \<Rightarrow>
                                            (case dnodes st3 dnode2 of
                                               None \<Rightarrow> None
                                             | Some dn \<Rightarrow> Some (Inr (dnode2, d_inode dn, st3)))))))))
             else Some (Inr (current_level, d_inode cl, st))))"
  by pat_completeness auto
termination
  apply (relation
    "measures [\<lambda>x. case x of
         Inl (Inl (E, start, path, dentry, component, walk_options, depth, st)) \<Rightarrow>
           (if depth \<ge> VFS_SYMLINK_DEPTH then 0 else 3 * (VFS_SYMLINK_DEPTH - depth) + 3)
       | Inl (Inr (E, walk_options, depth, cs, rest)) \<Rightarrow> 3 * (VFS_SYMLINK_DEPTH - depth) + 2
       | Inr (Inl (E, walk_options, depth, fname, lookahead, cs, rest)) \<Rightarrow>
           3 * (VFS_SYMLINK_DEPTH - depth) + 2
       | Inr (Inr (E, depth, rest)) \<Rightarrow> 3 * (VFS_SYMLINK_DEPTH - depth) + 1,
     \<lambda>x. case x of
         Inl (Inr (E, walk_options, depth, cs, rest)) \<Rightarrow> 2 * length cs
       | Inr (Inl (E, walk_options, depth, fname, lookahead, cs, rest)) \<Rightarrow> 2 * length cs + 1
       | _ \<Rightarrow> 0]")
  apply (auto simp add: VFS_SYMLINK_DEPTH_def)
  done

declare vfs_walk_rec.simps [simp del] walk_loop.simps [simp del]
  walk_component.simps [simp del] walk_symlink.simps [simp del]

text \<open>
  \<open>vfs_walk\<close>: the top-level walk, at depth 0 (the name buffer it allocates is the
  \<open>fname\<close> of the levels).
\<close>

definition vfs_walk ::
  "'d vfs_env \<Rightarrow> ptr \<Rightarrow> string \<Rightarrow> ptr \<Rightarrow> hstr option \<Rightarrow> walk_flag set \<Rightarrow> 'd vfs_state
     \<Rightarrow> (status \<times> ptr \<times> hstr option \<times> 'd vfs_state) option" where
  "vfs_walk E start path dentry component options st =
     vfs_walk_rec E start path dentry component options 0 st"

subsection \<open>System calls that change the directory tree\<close>


text \<open>
  \<open>sys_mkdir\<close>. The source tests its local \<open>dir\<close> before assigning it; \<open>dir0\<close>
  is the value the uninitialised variable happens to hold.
\<close>

definition sys_mkdir :: "'d vfs_env \<Rightarrow> string \<Rightarrow> ptr \<Rightarrow> 'd vfs_state \<Rightarrow> (status \<times> 'd vfs_state) option" where
  "sys_mkdir E path dir0 st =
     (if dir0 = NULL then Some (DO_STATUS (Err ENOMEM), st)
      else do {
        (errno, parent, name, st1) \<leftarrow>
          vfs_walk E (cwd st) path NULL (Some \<lparr>hash = 0, len = 0, val = []\<rparr>) {VFS_WALK_PARENT} st;
        if errno \<noteq> Val 0 then Some (DO_STATUS errno, st1)
        else do {
          nm \<leftarrow> name;
          (dir, st2) \<leftarrow> vfs_d_alloc E parent nm st1;
          p \<leftarrow> dnodes st2 parent;
          sb \<leftarrow> sblocks st2 (d_super_block p);
          (errno1, added, st3) \<leftarrow>
            (if FSTYPE_ROFS \<in> sb_fs_types sb then Some (Err ENOTSUP, False, st2)
             else do {
               pi \<leftarrow> inodes st2 (d_inode p);
               (case op_mkdir (iops E (i_ops pi)) of
                  None \<Rightarrow> Some (Err ENOTSUP, False, st2)
                | Some mkdir \<Rightarrow>
                   if VFS_IFDIR \<notin> i_itype pi then Some (Err ENOTDIR, False, st2)
                   else (case mkdir (d_inode p) dir st2 of
                           (errno2, st4) \<Rightarrow>
                            if errno2 = Val 0
                            then map_option (\<lambda>st5. (errno2, True, st5)) (vfs_dcache_add E parent dir st4)
                            else Some (errno2, False, st4)))
             });
          if added then Some (DO_STATUS errno1, st3)
          else do { st6 \<leftarrow> vfs_d_free dir st3; Some (DO_STATUS errno1, st6) }
        }
      })"

text \<open>\<open>__vfs_do_unlink\<close>.\<close>

definition vfs_do_unlink :: "'d vfs_env \<Rightarrow> ptr \<Rightarrow> 'd vfs_state \<Rightarrow> (status \<times> 'd vfs_state) option" where
  "vfs_do_unlink E dnode st = do {
     d \<leftarrow> dnodes st dnode;
     if 1 < d_ref_count d then Some (Err EBUSY, st)
     else do {
       i \<leftarrow> inodes st (d_inode d);
       if i_open_count i \<noteq> 0 then Some (Err EBUSY, st)
       else if VFS_IFDIR \<notin> i_itype i
       then do {
         unlink \<leftarrow> op_unlink (iops E (i_ops i));
         (errno, st1) \<leftarrow> Some (unlink (d_inode d) st);
         if errno = Val 0
         then do { st2 \<leftarrow> vfs_d_free dnode st1; Some (errno, st2) }
         else Some (errno, st1)
       }
       else Some (Err EISDIR, st)
     }
   }"

definition sys_unlink :: "'d vfs_env \<Rightarrow> string \<Rightarrow> 'd vfs_state \<Rightarrow> (status \<times> 'd vfs_state) option" where
  "sys_unlink E pathname st = do {
     (errno, dnode, c, st1) \<leftarrow> vfs_walk E (cwd st) pathname NULL None {} st;
     if errno \<noteq> Val 0 then Some (DO_STATUS errno, st1)
     else do {
       d \<leftarrow> dnodes st1 dnode;
       sb \<leftarrow> sblocks st1 (d_super_block d);
       if FSTYPE_ROFS \<in> sb_fs_types sb then Some (DO_STATUS (Err EROFS), st1)
       else do {
         (errno1, st2) \<leftarrow> vfs_do_unlink E dnode st1;
         Some (DO_STATUS errno1, st2)
       }
     }
   }"

definition sys_symlink ::
  "'d vfs_env \<Rightarrow> string \<Rightarrow> string \<Rightarrow> 'd vfs_state \<Rightarrow> (status \<times> 'd vfs_state) option" where
  "sys_symlink E pathname link_target st = do {
     (errno, dnode, c, st1) \<leftarrow> vfs_walk E (cwd st) pathname NULL None {} st;
     if errno \<noteq> Val 0 then Some (DO_STATUS errno, st1)
     else do {
       d \<leftarrow> dnodes st1 dnode;
       sb \<leftarrow> sblocks st1 (d_super_block d);
       if FSTYPE_ROFS \<in> sb_fs_types sb then Some (DO_STATUS (Err EROFS), st1)
       else do {
         i \<leftarrow> inodes st1 (d_inode d);
         (case op_set_symlink (iops E (i_ops i)) of
            None \<Rightarrow> Some (DO_STATUS (Err ENOTSUP), st1)
          | Some set_symlink \<Rightarrow>
             (case set_symlink (d_inode d) link_target st1 of
                (errno1, st2) \<Rightarrow> Some (DO_STATUS errno1, st2)))
       }
     }
   }"

text \<open>\<open>vfs_do_rename\<close>.\<close>

definition vfs_do_rename ::
  "'d vfs_env \<Rightarrow> ptr \<Rightarrow> ptr \<Rightarrow> 'd vfs_state \<Rightarrow> (status \<times> 'd vfs_state) option" where
  "vfs_do_rename E current target st = do {
     c \<leftarrow> dnodes st current;
     ci \<leftarrow> inodes st (d_inode c);
     t \<leftarrow> dnodes st target;
     ti \<leftarrow> inodes st (d_inode t);
     if i_id ci = i_id ti then Some (Val 0, st)
     else if 1 < d_ref_count c \<or> 1 < d_ref_count t then Some (Err EBUSY, st)
     else if d_super_block c \<noteq> d_super_block t then Some (Err EXDEV, st)
     else if d_children t \<noteq> [] then Some (Err ENOTEMPTY, st)
     else do {
       rename \<leftarrow> op_rename (iops E (i_ops ci));
       (errno, st1) \<leftarrow> Some (rename (d_inode c) current target st);
       if errno \<noteq> Val 0 then Some (errno, st1)
       else do {
         c1 \<leftarrow> dnodes st1 current;
         t1 \<leftarrow> dnodes st1 target;
         st2 \<leftarrow> Some (st1\<lparr>dnodes := (dnodes st1)(current \<mapsto> c1\<lparr>d_name := hstrcpy (d_name c1) (d_name t1)\<rparr>)\<rparr>);
         st3 \<leftarrow> vfs_dcache_rehash E (d_parent t) current st2;
         st4 \<leftarrow> vfs_d_free target st3;
         Some (errno, st4)
       }
     }
   }"

definition sys_rename ::
  "'d vfs_env \<Rightarrow> string \<Rightarrow> string \<Rightarrow> 'd vfs_state \<Rightarrow> (status \<times> 'd vfs_state) option" where
  "sys_rename E oldpath newpath st = do {
     (errno, cur, c, st1) \<leftarrow> vfs_walk E (cwd st) oldpath NULL None {} st;
     if errno \<noteq> Val 0 then Some (DO_STATUS errno, st1)
     else do {
       (errno1, target_parent, name, st2) \<leftarrow>
         vfs_walk E (cwd st1) newpath NULL (Some \<lparr>hash = 0, len = 0, val = []\<rparr>) {VFS_WALK_PARENT} st1;
       if errno1 \<noteq> Val 0 then Some (DO_STATUS errno1, st2)
       else do {
         nm \<leftarrow> name;
         (errno2, target, c2, st3) \<leftarrow> vfs_walk E target_parent (val nm) NULL None {} st2;
         if errno2 = Err ENOENT
         then do {
           (target1, st4) \<leftarrow> vfs_d_alloc E target_parent nm st3;
           st5 \<leftarrow> vfs_dcache_add E target_parent target1 st4;
           if target1 = NULL then Some (DO_STATUS (Err ENOMEM), st5)
           else do {
             (errno3, st6) \<leftarrow> vfs_do_rename E cur target1 st5;
             Some (DO_STATUS errno3, st6)
           }
         }
         else if errno2 \<noteq> Val 0 then Some (DO_STATUS errno2, st3)
         else if target = NULL then Some (DO_STATUS (Err ENOMEM), st3)
         else do {
           (errno3, st6) \<leftarrow> vfs_do_rename E cur target st3;
           Some (DO_STATUS errno3, st6)
         }
       }
     }
   }"

text \<open>
  \<open>__vfs_try_locate_file\<close>, the path by which \<open>open\<close> and \<open>link\<close> create a file:
  the status with the contents of the out-parameters \<open>fdir\<close> and \<open>file\<close>.
\<close>

definition FLOCATE_CREATE_EMPTY :: int where
  "FLOCATE_CREATE_EMPTY = 1"

definition vfs_try_locate_file ::
  "'d vfs_env \<Rightarrow> string \<Rightarrow> int \<Rightarrow> 'd vfs_state \<Rightarrow> (status \<times> ptr \<times> ptr \<times> 'd vfs_state) option" where
  "vfs_try_locate_file E path options st = do {
     (errno, fdir, name, st1) \<leftarrow>
       vfs_walk E (cwd st) path NULL (Some \<lparr>hash = 0, len = 0, val = []\<rparr>) {VFS_WALK_PARENT} st;
     if errno \<noteq> Val 0 then Some (errno, fdir, NULL, st1)
     else do {
       nm \<leftarrow> name;
       (errno1, file, c, st2) \<leftarrow> vfs_walk E fdir (val nm) NULL None {} st1;
       if errno1 \<noteq> Err ENOENT \<or> options AND FLOCATE_CREATE_EMPTY = 0
       then Some (errno1, fdir, file, st2)
       else do {
         (file_new, st3) \<leftarrow> vfs_d_alloc E fdir nm st2;
         if file_new = NULL then Some (Err ENOMEM, fdir, file, st3)
         else do {
           p \<leftarrow> dnodes st3 fdir;
           pi \<leftarrow> inodes st3 (d_inode p);
           create \<leftarrow> op_create (iops E (i_ops pi));
           (errno2, st4) \<leftarrow> Some (create (d_inode p) file_new st3);
           if errno2 = Val 0
           then do { st5 \<leftarrow> vfs_dcache_add E fdir file_new st4; Some (errno2, fdir, file_new, st5) }
           else do { st5 \<leftarrow> vfs_d_free file_new st4; Some (errno2, fdir, file, st5) }
         }
       }
     }
   }"

subsection \<open>Concrete configurations and states\<close>

text \<open>
  A byte-sum hash and a comparison of \<open>hstr\<close> by hash stand in for the helpers of the
  headers wherever a definition has to be run on data.
\<close>

definition sum_hash :: "string \<Rightarrow> 32 word" where
  "sum_hash s = foldl (\<lambda>h c. h + of_nat (of_char c)) 0 s"

definition same_hash :: "hstr \<Rightarrow> hstr \<Rightarrow> bool" where
  "same_hash a b = (hash a = hash b)"

text \<open>
  A driver that knows no name beyond the cached ones and counts, in \<open>drv\<close>, how often
  one of its mutating methods (\<open>mkdir\<close>, \<open>rmdir\<close>, \<open>create\<close>, \<open>unlink\<close>,
  \<open>rename\<close>, \<open>set_symlink\<close>) was called. Names are limited to 3 bytes
  (\<open>VFS_NAME_MAXLEN = 4\<close>).
\<close>

definition count_ops :: "nat inode_ops" where
  "count_ops =
     \<lparr>op_dir_lookup = Some (\<lambda>i d st. (Err ENOENT, st)),
      op_mkdir = Some (\<lambda>i d st. (Val 0, st\<lparr>drv := Suc (drv st)\<rparr>)),
      op_rmdir = Some (\<lambda>i d st. (Val 0, st\<lparr>drv := Suc (drv st)\<rparr>)),
      op_create = Some (\<lambda>i d st. (Val 0, st\<lparr>drv := Suc (drv st)\<rparr>)),
      op_unlink = Some (\<lambda>i st. (Val 0, st\<lparr>drv := Suc (drv st)\<rparr>)),
      op_rename = Some (\<lambda>i c t st. (Val 0, st\<lparr>drv := Suc (drv st)\<rparr>)),
      op_read_symlink = None,
      op_set_symlink = Some (\<lambda>i t st. (Val 0, st\<lparr>drv := Suc (drv st)\<rparr>))\<rparr>"

text \<open>
  File methods: \<open>seek\<close> accepts positions up to 100; \<open>readdir\<close> has one entry,
  \<open>f\<close>, at index 0.
\<close>

definition dir_fops :: "nat file_ops" where
  "dir_fops =
     \<lparr>fop_seek = Some (\<lambda>i pos st. (if pos \<le> 100 then Val 0 else Err EINVAL, st)),
      fop_readdir = Some (\<lambda>f idx st. (if idx = 0 then (Val 1, [(''f'', 1, 0)]) else (Val 0, []), st)),
      fop_close = Some (\<lambda>f st. (Val 0, st))\<rparr>"

definition E_ram :: "nat vfs_env" where
  "E_ram =
     \<lparr>VFS_NAME_MAXLEN = 4, VFS_HASHBITS = 22, VFS_HASH_MASK = 1023, VFS_MAX_FD = 8,
      DIRENT_NAME_MAX_LEN = 8, VFS_VALID_CHAR = (\<lambda>c. c \<noteq> NUL),
      strhash_32 = sum_hash, HSTR_EQ = same_hash,
      iops = (\<lambda>n. count_ops), fops = (\<lambda>n. dir_fops),
      lru_evict_half_dnode = (\<lambda>st. st),
      mnt_chillax = (\<lambda>m st. st), pcache_commit_all = (\<lambda>i st. st)\<rparr>"

text \<open>
  The tree of the examples, all of it cached: the root (dnode 100) holds the files
  \<open>a\<close> (101) and \<open>b\<close> (102), the directory \<open>d\<close> (103) with its child \<open>e\<close>
  (104), the directory \<open>f\<close> (105), which something else references too, and the file
  \<open>ab\<close> (106). The inode of dnode \<open>n\<close> is \<open>n + 100\<close>. Descriptor 3 is the open
  directory \<open>f\<close>, descriptor 4 the open file \<open>ab\<close>, at position 10 of its 40 bytes.
\<close>

definition tree_dnode :: "string \<Rightarrow> 32 word \<Rightarrow> ptr \<Rightarrow> ptr \<Rightarrow> ptr list \<Rightarrow> 32 word \<Rightarrow> v_dnode" where
  "tree_dnode nm h ino par kids refs =
     \<lparr>d_name = \<lparr>hash = h, len = length nm, val = nm\<rparr>, d_inode = ino, d_parent = par,
      d_children = kids, d_super_block = 1, d_mnt = 1, d_ref_count = refs\<rparr>"

definition tree_inode :: "32 word \<Rightarrow> itype_flag set \<Rightarrow> 32 word \<Rightarrow> 32 word \<Rightarrow> v_inode" where
  "tree_inode n ty sz opens =
     \<lparr>i_id = n, i_itype = ty, i_fsize = sz, i_link_count = 1, i_open_count = opens, i_sb = 1, i_ops = 0\<rparr>"

definition S_tree :: "fstype_flag set \<Rightarrow> nat vfs_state" where
  "S_tree fs_types =
     \<lparr>dnodes = [100 \<mapsto> tree_dnode [] 0 200 NULL [101, 102, 103, 105, 106] 1,
                101 \<mapsto> tree_dnode ''a'' 197 201 100 [] 1,
                102 \<mapsto> tree_dnode ''b'' 198 202 100 [] 1,
                103 \<mapsto> tree_dnode ''d'' 200 203 100 [104] 1,
                104 \<mapsto> tree_dnode ''e'' 204 204 103 [] 1,
                105 \<mapsto> tree_dnode ''f'' 202 205 100 [] 2,
                106 \<mapsto> tree_dnode ''ab'' 295 206 100 [] 2],
      inodes = [200 \<mapsto> tree_inode 1 {VFS_IFDIR} 0 0,
                201 \<mapsto> tree_inode 2 {VFS_IFFILE} 0 0,
                202 \<mapsto> tree_inode 3 {VFS_IFFILE} 0 0,
                203 \<mapsto> tree_inode 4 {VFS_IFDIR} 0 0,
                204 \<mapsto> tree_inode 5 {VFS_IFFILE} 0 0,
                205 \<mapsto> tree_inode 6 {VFS_IFDIR} 0 1,
                206 \<mapsto> tree_inode 7 {VFS_IFFILE} 40 1],
      sblocks = [1 \<mapsto> \<lparr>sb_root = 100, sb_fs_types = fs_types\<rparr>],
      files = [60 \<mapsto> \<lparr>f_dnode = 105, f_inode = 205, f_pos = 0, f_ref_count = 1, f_ops = 0\<rparr>,
               61 \<mapsto> \<lparr>f_dnode = 106, f_inode = 206, f_pos = 10, f_ref_count = 1, f_ops = 0\<rparr>],
      fdescs = [50 \<mapsto> \<lparr>fd_file = 60, fd_flags = 0\<rparr>, 51 \<mapsto> \<lparr>fd_file = 61, fd_flags = 0\<rparr>],
      fds = (\<lambda>n. if n = 3 then 50 else if n = 4 then 51 else NULL),
      cwd = 100,
      vfs_sysroot = 100,
      dnode_cache = (\<lambda>slot. if slot = 197 then [101] else if slot = 198 then [102]
                             else if slot = 200 then [103] else if slot = 204 then [104]
                             else if slot = 202 then [105] else if slot = 295 then [106] else []),
      dnode_pile = [300, 301],
      fd_pile = [52],
      drv = 0\<rparr>"

definition S_rw :: "nat vfs_state" where
  "S_rw = S_tree {}"

definition S_ro :: "nat vfs_state" where
  "S_ro = S_tree {FSTYPE_ROFS}"












subsection \<open>Definitions that follow the words of the specification\<close>

text \<open>The target position in the words of the specification.\<close>

definition lseek_target :: "seek_mode \<Rightarrow> 32 word \<Rightarrow> 32 word \<Rightarrow> 32 word \<Rightarrow> 32 word" where
  "lseek_target options cur fsize offset =
     (case options of
        FSEEK_CUR \<Rightarrow> cur + offset
      | FSEEK_END \<Rightarrow> fsize + offset
      | FSEEK_SET \<Rightarrow> offset
      | FSEEK_OTHER n \<Rightarrow> cur)"


section \<open>Properties\<close>

subsection \<open>Helper facts\<close>

lemma DO_STATUS_OR_RETURN_id [simp]: "DO_STATUS_OR_RETURN errno = errno"
  by (simp add: DO_STATUS_OR_RETURN_def DO_STATUS_def)

lemma DO_STATUS_id [simp]: "DO_STATUS errno = errno"
  by (simp add: DO_STATUS_def)

lemma NUL_PATH_DELIM [simp]: "NUL \<noteq> PATH_DELIM" "PATH_DELIM \<noteq> NUL"
  by (simp_all add: NUL_def PATH_DELIM_def)

lemma callback_keeps_offset: "d_offset (vfs_readdir_callback C dent call) = d_offset dent"
  by (cases call) (simp add: vfs_readdir_callback_def)

lemma callbacks_keep_offset: "d_offset (foldl (vfs_readdir_callback C) dent calls) = d_offset dent"
  by (induction calls arbitrary: dent) (simp_all add: callback_keeps_offset)

lemma vfs_getfd_fops: "vfs_getfd (E\<lparr>fops := F\<rparr>) fd st = vfs_getfd E fd st"
  by (simp add: vfs_getfd_def TEST_FD_def)

text \<open>The descriptors of the example state.\<close>

lemma S_rw_fd3:
  "vfs_getfd E_ram 3 S_rw = (Val 0, 50)"
  "fdescs S_rw 50 = Some \<lparr>fd_file = 60, fd_flags = 0\<rparr>"
  "files S_rw 60 = Some \<lparr>f_dnode = 105, f_inode = 205, f_pos = 0, f_ref_count = 1, f_ops = 0\<rparr>"
  "inodes S_rw 205 = Some (tree_inode 6 {VFS_IFDIR} 0 1)"
  by (simp_all add: vfs_getfd_def TEST_FD_def E_ram_def S_rw_def S_tree_def)

lemma S_rw_fd4:
  "vfs_getfd E_ram 4 S_rw = (Val 0, 51)"
  "fdescs S_rw 51 = Some \<lparr>fd_file = 61, fd_flags = 0\<rparr>"
  "files S_rw 61 = Some \<lparr>f_dnode = 106, f_inode = 206, f_pos = 10, f_ref_count = 1, f_ops = 0\<rparr>"
  "inodes S_rw 206 = Some (tree_inode 7 {VFS_IFFILE} 40 1)"
  by (simp_all add: vfs_getfd_def TEST_FD_def E_ram_def S_rw_def S_tree_def)

lemma E_ram_fops:
  "fop_seek (fops E_ram n) = Some (\<lambda>i pos st. (if pos \<le> 100 then Val 0 else Err EINVAL, st))"
  "fop_readdir (fops E_ram n) =
     Some (\<lambda>f idx st. (if idx = 0 then (Val 1, [(''f'', 1, 0)]) else (Val 0, []), st))"
  by (simp_all add: E_ram_def dir_fops_def)

subsection \<open>dup2\<close>

text \<open>
  C9. For every integer \<open>x\<close>, \<open>dup2(x, x)\<close> returns \<open>x\<close> and leaves the whole state
  as it is: the descriptor table, every file object and every count. Nothing is asked
  of \<open>x\<close>; it need not be an open descriptor nor lie in the range of the table.
\<close>

theorem dup2_same_descriptor:
  "vfs_dup2 E x x st = Some (Val x, st) \<and> sys_dup2 E x x st = Some (Val x, st)"
  by (simp add: vfs_dup2_def sys_dup2_def)

subsection \<open>lseek\<close>

text \<open>
  C7. On a valid descriptor \<open>lseek\<close> computes the target (current position plus
  offset for \<open>CUR\<close>, inode size plus offset for \<open>END\<close>, the offset for \<open>SET\<close>),
  calls the driver's \<open>seek\<close> with the inode and that target, and returns the driver's
  status. The position of the file becomes the target exactly when that status is 0;
  otherwise the state is the one the driver left, the position in it untouched.
\<close>

theorem lseek_updates_position_on_success_only:
  assumes "vfs_getfd E fd st = (Val 0, fd_s)"
    and "fdescs st fd_s = Some fdr"
    and "files st (fd_file fdr) = Some file"
    and "inodes st (f_inode file) = Some ino"
    and "fop_seek (fops E (f_ops file)) = Some seek"
    and "seek (f_inode file) (lseek_target options (f_pos file) (i_fsize ino) offset) st = (errno, st1)"
    and "files st1 (fd_file fdr) = Some file1"
  shows "sys_lseek E fd offset options st =
           Some (errno,
                 if errno = Val 0
                 then st1\<lparr>files := (files st1)(fd_file fdr \<mapsto>
                        file1\<lparr>f_pos := lseek_target options (f_pos file) (i_fsize ino) offset\<rparr>)\<rparr>
                 else st1)"
  using assms by (cases options) (simp_all add: sys_lseek_def lseek_target_def)

theorem lseek_updates_position_on_success_only_witness:
  "sys_lseek E_ram 4 5 FSEEK_END S_rw =
     Some (Val 0, S_rw\<lparr>files := (files S_rw)(61 \<mapsto>
             \<lparr>f_dnode = 106, f_inode = 206, f_pos = 45, f_ref_count = 1, f_ops = 0\<rparr>)\<rparr>)
   \<and> sys_lseek E_ram 4 500 FSEEK_SET S_rw = Some (Err EINVAL, S_rw)"
proof -
  have ok: "(\<lambda>i pos st. (if pos \<le> 100 then Val 0 else Err EINVAL, st)) 206
              (lseek_target FSEEK_END 10 40 5) S_rw = (Val 0, S_rw)"
    by (simp add: lseek_target_def)
  have bad: "(\<lambda>i pos st. (if pos \<le> 100 then Val 0 else Err EINVAL, st)) 206
               (lseek_target FSEEK_SET 10 40 500) S_rw = (Err EINVAL, S_rw)"
    by (simp add: lseek_target_def)
  show ?thesis
    using lseek_updates_position_on_success_only
            [of E_ram 4 S_rw 51 "\<lparr>fd_file = 61, fd_flags = 0\<rparr>"
                "\<lparr>f_dnode = 106, f_inode = 206, f_pos = 10, f_ref_count = 1, f_ops = 0\<rparr>"
                "tree_inode 7 {VFS_IFFILE} 40 1" _ FSEEK_END 5 "Val 0" S_rw
                "\<lparr>f_dnode = 106, f_inode = 206, f_pos = 10, f_ref_count = 1, f_ops = 0\<rparr>"]
          lseek_updates_position_on_success_only
            [of E_ram 4 S_rw 51 "\<lparr>fd_file = 61, fd_flags = 0\<rparr>"
                "\<lparr>f_dnode = 106, f_inode = 206, f_pos = 10, f_ref_count = 1, f_ops = 0\<rparr>"
                "tree_inode 7 {VFS_IFFILE} 40 1" _ FSEEK_SET 500 "Err EINVAL" S_rw
                "\<lparr>f_dnode = 106, f_inode = 206, f_pos = 10, f_ref_count = 1, f_ops = 0\<rparr>"]
          ok bad
    by (simp add: S_rw_fd4 E_ram_fops tree_inode_def lseek_target_def)
qed

subsection \<open>readdir\<close>

text \<open>
  C8. On a descriptor of a directory: at offset 0 \<open>readdir\<close> emits \<open>.\<close> through the
  callback, at offset 1 it emits \<open>..\<close>, and in both cases returns 1 with the offset
  advanced by one, without the driver. At any other offset \<open>k\<close> it calls the driver's
  \<open>readdir\<close> with the index \<open>k - 2\<close>; the offset is advanced by one when the driver
  returns 1 and is left as it is for any other status (no entry, or an error), which
  is returned.
\<close>

theorem readdir_offsets:
  assumes "vfs_getfd E fd st = (Val 0, fd_s)"
    and "fdescs st fd_s = Some fdr"
    and "files st (fd_file fdr) = Some file"
    and "inodes st (f_inode file) = Some ino"
    and "VFS_IFDIR \<in> i_itype ino"
  shows "(d_offset dent = 0 \<longrightarrow>
            sys_readdir E fd dent st =
              Some (Val 1, (vfs_readdir_callback E dent (''.'', 1, 0))\<lparr>d_offset := 1\<rparr>, st))
       \<and> (d_offset dent = 1 \<longrightarrow>
            sys_readdir E fd dent st =
              Some (Val 1, (vfs_readdir_callback E dent (''..'', 2, 0))\<lparr>d_offset := 2\<rparr>, st))
       \<and> (d_offset dent \<noteq> 0 \<and> d_offset dent \<noteq> 1 \<and>
           fop_readdir (fops E (f_ops file)) = Some readdir \<and>
           readdir (fd_file fdr) (d_offset dent - 2) st = ((errno, calls), st1) \<longrightarrow>
            sys_readdir E fd dent st =
              Some (errno,
                    (foldl (vfs_readdir_callback E) dent calls)
                      \<lparr>d_offset := (if errno = Val 1 then d_offset dent + 1 else d_offset dent)\<rparr>,
                    st1))"
  using assms
  by (auto simp add: sys_readdir_def callback_keeps_offset callbacks_keep_offset
        vfs_dot_def vfs_ddot_def hstr_rehash_def)

theorem readdir_offsets_witness:
  "sys_readdir E_ram 3 \<lparr>d_type = 7, d_offset = 0, d_nlen = 7, d_dname = ''zz''\<rparr> S_rw =
     Some (Val 1, \<lparr>d_type = 0, d_offset = 1, d_nlen = 1, d_dname = ''.''\<rparr>, S_rw)
   \<and> sys_readdir E_ram 3 \<lparr>d_type = 7, d_offset = 1, d_nlen = 7, d_dname = ''zz''\<rparr> S_rw =
     Some (Val 1, \<lparr>d_type = 0, d_offset = 2, d_nlen = 2, d_dname = ''..''\<rparr>, S_rw)
   \<and> sys_readdir E_ram 3 \<lparr>d_type = 7, d_offset = 2, d_nlen = 7, d_dname = ''zz''\<rparr> S_rw =
     Some (Val 1, \<lparr>d_type = 0, d_offset = 3, d_nlen = 1, d_dname = ''f''\<rparr>, S_rw)
   \<and> sys_readdir E_ram 3 \<lparr>d_type = 7, d_offset = 3, d_nlen = 7, d_dname = ''zz''\<rparr> S_rw =
     Some (Val 0, \<lparr>d_type = 7, d_offset = 3, d_nlen = 7, d_dname = ''zz''\<rparr>, S_rw)"
proof -
  have dir: "VFS_IFDIR \<in> i_itype (tree_inode 6 {VFS_IFDIR} 0 1)"
    by (simp add: tree_inode_def)
  note r = readdir_offsets [of E_ram 3 S_rw, OF S_rw_fd3(1) S_rw_fd3(2), simplified, OF S_rw_fd3(3),
      simplified, OF S_rw_fd3(4) dir]
  have len: "DIRENT_NAME_MAX_LEN E_ram = 8" by (simp add: E_ram_def)
  show ?thesis
    using r [of "\<lparr>d_type = 7, d_offset = 0, d_nlen = 7, d_dname = ''zz''\<rparr>"]
          r [of "\<lparr>d_type = 7, d_offset = 1, d_nlen = 7, d_dname = ''zz''\<rparr>"]
          r [of "\<lparr>d_type = 7, d_offset = 2, d_nlen = 7, d_dname = ''zz''\<rparr>"
               "(\<lambda>f idx st. (if idx = 0 then (Val 1, [(''f'', 1, 0)]) else (Val 0, []), st))" "Val 1" "[(''f'', 1, 0)]" S_rw]
          r [of "\<lparr>d_type = 7, d_offset = 3, d_nlen = 7, d_dname = ''zz''\<rparr>"
               "(\<lambda>f idx st. (if idx = 0 then (Val 1, [(''f'', 1, 0)]) else (Val 0, []), st))" "Val 0" "[]" S_rw]
    by (simp add: E_ram_fops vfs_readdir_callback_def len)
qed

text \<open>
  C10. On a valid descriptor whose inode is not a directory \<open>readdir\<close> returns
  \<open>ENOTDIR\<close> and hands back the dirent and the state as they were; the result is the
  same whatever the file methods are, so the driver's \<open>readdir\<close> plays no part.
\<close>

theorem readdir_not_a_directory:
  assumes "vfs_getfd E fd st = (Val 0, fd_s)"
    and "fdescs st fd_s = Some fdr"
    and "files st (fd_file fdr) = Some file"
    and "inodes st (f_inode file) = Some ino"
    and "VFS_IFDIR \<notin> i_itype ino"
  shows "\<forall>F. sys_readdir (E\<lparr>fops := F\<rparr>) fd dent st = Some (Err ENOTDIR, dent, st)"
  using assms by (simp add: sys_readdir_def vfs_getfd_fops)

theorem readdir_not_a_directory_witness:
  "\<forall>F. sys_readdir (E_ram\<lparr>fops := F\<rparr>) 4 \<lparr>d_type = 7, d_offset = 3, d_nlen = 7, d_dname = ''zz''\<rparr> S_rw =
     Some (Err ENOTDIR, \<lparr>d_type = 7, d_offset = 3, d_nlen = 7, d_dname = ''zz''\<rparr>, S_rw)"
proof -
  have nodir: "VFS_IFDIR \<notin> i_itype (tree_inode 7 {VFS_IFFILE} 40 1)"
    by (simp add: tree_inode_def)
  show ?thesis
    using readdir_not_a_directory [of E_ram 4 S_rw, OF S_rw_fd4(1) S_rw_fd4(2), simplified,
        OF S_rw_fd4(3), simplified, OF S_rw_fd4(4) nodir]
    by simp
qed

subsection \<open>The dnode cache\<close>









text \<open>
  C4. Whatever the hash table holds, the lookup of \<open>.\<close> under a dnode returns that
  dnode, the lookup of \<open>..\<close> returns its parent when that is not null and the dnode
  itself otherwise, and the lookup of an empty name returns the dnode. \<open>HSTR_EQ\<close> is
  assumed to recognise each of the two special names and to tell them apart.
\<close>

theorem dcache_lookup_special_names:
  assumes "HSTR_EQ C (vfs_dot C) (vfs_dot C)"
    and "HSTR_EQ C (vfs_ddot C) (vfs_ddot C)"
    and "\<not> HSTR_EQ C (vfs_ddot C) (vfs_dot C)"
    and "dnodes st parent = Some p"
  shows "vfs_dcache_lookup C parent (vfs_dot C) (st\<lparr>dnode_cache := cache\<rparr>) = Some parent
       \<and> vfs_dcache_lookup C parent (vfs_ddot C) (st\<lparr>dnode_cache := cache\<rparr>) =
           Some (if d_parent p \<noteq> NULL then d_parent p else parent)
       \<and> (len s = 0 \<longrightarrow> vfs_dcache_lookup C parent s (st\<lparr>dnode_cache := cache\<rparr>) = Some parent)"
proof -
  have "len (vfs_ddot C) \<noteq> 0" by (simp add: vfs_ddot_def hstr_rehash_def)
  then show ?thesis using assms by (simp add: vfs_dcache_lookup_def)
qed

theorem dcache_lookup_special_names_witness:
  "vfs_dcache_lookup E_ram 103 (vfs_dot E_ram) (S_rw\<lparr>dnode_cache := (\<lambda>slot. [])\<rparr>) = Some 103
   \<and> vfs_dcache_lookup E_ram 103 (vfs_ddot E_ram) (S_rw\<lparr>dnode_cache := (\<lambda>slot. [])\<rparr>) = Some 100
   \<and> vfs_dcache_lookup E_ram 100 (vfs_ddot E_ram) (S_rw\<lparr>dnode_cache := (\<lambda>slot. [])\<rparr>) = Some 100
   \<and> vfs_dcache_lookup E_ram 103 vfs_empty (S_rw\<lparr>dnode_cache := (\<lambda>slot. [])\<rparr>) = Some 103"
proof -
  have eq: "HSTR_EQ E_ram (vfs_dot E_ram) (vfs_dot E_ram)" "HSTR_EQ E_ram (vfs_ddot E_ram) (vfs_ddot E_ram)"
    "\<not> HSTR_EQ E_ram (vfs_ddot E_ram) (vfs_dot E_ram)"
    by (simp_all add: E_ram_def same_hash_def vfs_dot_def vfs_ddot_def hstr_rehash_def sum_hash_def)
  have d: "dnodes S_rw 103 = Some (tree_dnode ''d'' 200 203 100 [104] 1)"
    "dnodes S_rw 100 = Some (tree_dnode [] 0 200 NULL [101, 102, 103, 105, 106] 1)"
    by (simp_all add: S_rw_def S_tree_def)
  show ?thesis
    using dcache_lookup_special_names [OF eq d(1), of "\<lambda>slot. []" vfs_empty]
          dcache_lookup_special_names [OF eq d(2), of "\<lambda>slot. []" vfs_empty]
    by (simp add: tree_dnode_def vfs_empty_def)
qed

subsection \<open>The path walker\<close>


































subsection \<open>rmdir\<close>





subsection \<open>Read-only file systems\<close>

text \<open>
  C5. On the example tree mounted read-only, \<open>unlink\<close> and \<open>symlink\<close> return
  \<open>EROFS\<close> before the driver is called. \<open>rename\<close> of \<open>/a\<close> to \<open>/b\<close> does not:
  the driver's \<open>rename\<close> is called and the call returns 0. Nor does the creation of
  \<open>/c\<close> through \<open>__vfs_try_locate_file\<close>: the driver's \<open>create\<close> is called.
  \<open>mkdir\<close> of \<open>/c\<close> tests the flag, takes \<open>ENOTSUP\<close> for it and then runs
  \<open>vfs_d_free\<close> on the dnode it has just allocated, whose reference count is 0: the
  assertion of \<open>vfs_d_free\<close> fails.
\<close>

theorem read_only_fs_checks:
  "map_option (\<lambda>r. (fst r, drv (snd r))) (sys_unlink E_ram ''/a'' S_ro) = Some (Err EROFS, 0)
   \<and> map_option (\<lambda>r. (fst r, drv (snd r))) (sys_symlink E_ram ''/a'' ''b'' S_ro) = Some (Err EROFS, 0)
   \<and> map_option (\<lambda>r. (fst r, drv (snd r))) (sys_rename E_ram ''/a'' ''/b'' S_ro) = Some (Val 0, 1)
   \<and> map_option (\<lambda>r. (fst r, drv (snd (snd (snd r)))))
        (vfs_try_locate_file E_ram ''/c'' FLOCATE_CREATE_EMPTY S_ro) = Some (Val 0, 1)
   \<and> sys_mkdir E_ram ''/c'' 1 S_ro = None"
  by code_simp

theorem read_only_fs_checks_witness:
  "map_option (\<lambda>r. (fst r, drv (snd r))) (sys_rename E_ram ''/a'' ''/b'' S_ro) = Some (Val 0, 1)
   \<and> sys_mkdir E_ram ''/c'' 1 S_ro = None"
  using read_only_fs_checks by simp

end
